theory Spec2Isabelle
  imports Main "HOL-Library.Word" "HOL-Library.Multiset"
begin

unbundle bit_operations_syntax

section \<open>MigrateRoute (mcrouter/lib/routes/MigrateRoute.h)\<close>

subsection \<open>Data model\<close>

text \<open>
  \<open>time_t\<close> is the signed 64-bit integer of the platforms mcrouter is built for. It is a
  \<open>64 word\<close> read as two's complement: \<open><s\<close> is the signed comparison the C++ \<open><\<close>
  performs on it, \<open>sint\<close> its value, and \<open>+\<close>, \<open>*\<close> the machine operations. A signed sum
  that overflows is undefined in C++; the model gives it the two's-complement result of
  the machine, and a statement that reads a sum as an integer says that the sum is in
  range. The masks are C++ \<open>int\<close>s.
\<close>

type_synonym time_t = "64 word"
type_synonym cint = "32 word"

text \<open>The integers that a \<open>time_t\<close> can hold.\<close>

definition in_time_t :: "int \<Rightarrow> bool" where
  "in_time_t k = (- (2 ^ 63) \<le> k \<and> k < 2 ^ 63)"

text \<open>
  The \<open>Operation\<close> template argument is a compile-time tag. The only thing MigrateRoute
  reads from it is the \<open>DeleteLike\<close> trait, which selects one of the two
  overloads of \<open>routeMask\<close>; the tag itself is passed on to the destination.
\<close>

datatype operation = DeleteLike | OtherThanDeleteLike

text \<open>
  \<open>RouteHandleIf\<close>: a destination. \<open>handle_id\<close> stands for the identity of the shared
  object (two \<open>shared_ptr\<close>s to the same handle have the same id), \<open>handle_route\<close> is the
  reply its \<open>route(req, Operation())\<close> gives; what a destination does behind that
  interface is not part of this class.
\<close>

record ('req, 'reply) RouteHandleIf =
  handle_id :: nat
  handle_route :: "'req \<Rightarrow> operation \<Rightarrow> 'reply"

text \<open>
  The members \<open>from_\<close>, \<open>to_\<close>, \<open>startTimeSec_\<close>, \<open>intervalSec_\<close> and \<open>tp_\<close> of the
  class (a name cannot end in an underscore here). \<open>tp_fn r req\<close> is the time the
  \<open>TimeProvider\<close> gives for the request at the call under consideration.
\<close>

record ('req, 'reply) MigrateRoute =
  from_h :: "('req, 'reply) RouteHandleIf"
  to_h :: "('req, 'reply) RouteHandleIf"
  startTimeSec :: time_t
  intervalSec :: time_t
  tp_fn :: "'req \<Rightarrow> time_t"

datatype error =
    LogicError string          \<comment> \<open>\<open>std::logic_error\<close> thrown by \<open>checkLogic\<close>\<close>
  | AssertionFailed            \<comment> \<open>a failed \<open>assert\<close>: the process aborts\<close>
  | OptionalEmpty              \<comment> \<open>\<open>folly::Optional::value()\<close> on an empty optional\<close>
  | FactoryError string        \<comment> \<open>whatever \<open>RouteHandleFactory::create\<close> throws\<close>

definition kFromMask :: cint where
  "kFromMask = 1"

definition kToMask :: cint where
  "kToMask = 2"

subsection \<open>routeMask and couldRouteTo\<close>

text \<open>The two overloads of \<open>routeMask\<close>, selected by the trait of the operation.\<close>

fun routeMask :: "('req, 'reply) MigrateRoute \<Rightarrow> 'req \<Rightarrow> operation \<Rightarrow> cint" where
  "routeMask r req DeleteLike =
     (let curr = tp_fn r req in
      if curr <s startTimeSec r then kFromMask
      else if curr <s startTimeSec r + 2 * intervalSec r then kFromMask OR kToMask
      else kToMask)"
| "routeMask r req OtherThanDeleteLike =
     (let curr = tp_fn r req in
      if curr <s startTimeSec r + intervalSec r then kFromMask
      else kToMask)"

definition couldRouteTo ::
  "('req, 'reply) MigrateRoute \<Rightarrow> 'req \<Rightarrow> operation \<Rightarrow> ('req, 'reply) RouteHandleIf list" where
  "couldRouteTo r req op =
     (let mask = routeMask r req op;
          ret = [];
          ret = (if mask AND kFromMask \<noteq> 0 then ret @ [from_h r] else ret);
          ret = (if mask AND kToMask \<noteq> 0 then ret @ [to_h r] else ret)
      in ret)"

subsection \<open>route\<close>

text \<open>
  A call of a destination's \<open>route\<close> is the one effect of this class. The state is the log
  of the calls made so far, oldest first; \<open>dispatch h req op\<close> is
  \<open>h->route(req, Operation())\<close>: it returns the destination's reply and appends the
  destination to the log.
\<close>

type_synonym ('req, 'reply) calls = "('req, 'reply) RouteHandleIf list"

definition dispatch ::
  "('req, 'reply) RouteHandleIf \<Rightarrow> 'req \<Rightarrow> operation \<Rightarrow>
   ('req, 'reply) calls \<Rightarrow> 'reply \<times> ('req, 'reply) calls" where
  "dispatch h req op log = (handle_route h req op, log @ [h])"

text \<open>
  Modelled from the spec: the tasks of \<open>fiber::forEach\<close> (mcrouter/lib/fibers, which is
  not part of the source given). Every task is run once, in slot order; each returns its
  result and the state it leaves.
\<close>

fun run_tasks :: "('w \<Rightarrow> 'r \<times> 'w) list \<Rightarrow> 'w \<Rightarrow> 'r list \<times> 'w" where
  "run_tasks [] w = ([], w)"
| "run_tasks (t # ts) w =
     (case t w of (x, w') \<Rightarrow>
        (case run_tasks ts w' of (xs, w'') \<Rightarrow> (x # xs, w'')))"

text \<open>
  Modelled from the spec: the completions of \<open>fiber::forEach\<close>. The callback receives
  each result with the slot it comes from, in the order in which the tasks complete.
\<close>

fun deliver :: "(nat \<Rightarrow> 'r \<Rightarrow> 'a \<Rightarrow> 'a) \<Rightarrow> 'r list \<Rightarrow> nat list \<Rightarrow> 'a \<Rightarrow> 'a" where
  "deliver f xs [] acc = acc"
| "deliver f xs (i # order) acc =
     deliver f xs order (if i < length xs then f i (xs ! i) acc else acc)"

text \<open>
  Modelled from the spec: \<open>fiber::forEach(first, last, f)\<close>. The spec's contract for it: run
  the given independent operations concurrently and deliver each completion with its
  originating slot identity, as they complete; the order of completion is not guaranteed.
  Here \<open>order\<close>, the order of completion, is a parameter, and \<open>acc\<close> is the state the
  callback updates.
\<close>

definition forEach ::
  "('w \<Rightarrow> 'r \<times> 'w) list \<Rightarrow> nat list \<Rightarrow> (nat \<Rightarrow> 'r \<Rightarrow> 'a \<Rightarrow> 'a) \<Rightarrow> 'a \<Rightarrow> 'w \<Rightarrow> 'a \<times> 'w" where
  "forEach fs order f acc w =
     (case run_tasks fs w of (xs, w') \<Rightarrow> (deliver f xs order acc, w'))"

text \<open>Which of the two sub-tasks of a dual dispatch completes first.\<close>

datatype completion = FromFirst | ToFirst

fun completion_order :: "completion \<Rightarrow> nat list" where
  "completion_order FromFirst = [0, 1]"
| "completion_order ToFirst = [1, 0]"

text \<open>
  The callback of \<open>route\<close>: \<open>reply\<close> is the captured optional reply, returned
  updated. \<open>worseThan a b\<close> is \<open>a.worseThan(b)\<close> of the reply type, a parameter.
\<close>

definition onReply ::
  "('reply \<Rightarrow> 'reply \<Rightarrow> bool) \<Rightarrow> nat \<Rightarrow> 'reply \<Rightarrow> 'reply option \<Rightarrow> 'reply option" where
  "onReply worseThan slot newReply reply =
     (case reply of
        None \<Rightarrow> Some newReply
      | Some cur \<Rightarrow> if worseThan newReply cur then Some newReply else reply)"

definition route ::
  "('reply \<Rightarrow> 'reply \<Rightarrow> bool) \<Rightarrow> ('req, 'reply) MigrateRoute \<Rightarrow> 'req \<Rightarrow> operation \<Rightarrow>
   completion \<Rightarrow> ('req, 'reply) calls \<Rightarrow> (error + 'reply) \<times> ('req, 'reply) calls" where
  "route worseThan r req op ord log =
     (let mask = routeMask r req op in
      if mask = kFromMask then
        (case dispatch (from_h r) req op log of (rep, log') \<Rightarrow> (Inr rep, log'))
      else if mask = kToMask then
        (case dispatch (to_h r) req op log of (rep, log') \<Rightarrow> (Inr rep, log'))
      else
        (let fs = [dispatch (from_h r) req op, dispatch (to_h r) req op] in
         case forEach fs (completion_order ord) (onReply worseThan) None log of
           (reply, log') \<Rightarrow>
             (case reply of
                None \<Rightarrow> (Inl OptionalEmpty, log')
              | Some v \<Rightarrow> (Inr v, log'))))"

subsection \<open>Construction from a configuration\<close>

text \<open>
  Modelled from the spec: \<open>folly::dynamic\<close>, the configuration value (an external library
  type). The constructors are the cases of \<open>dynamic::Type\<close>; an object is the list of its
  members, looked up by key. The payload of a double is never read here.
\<close>

datatype dynamic =
    NULLT
  | ARRAY "dynamic list"
  | BOOL bool
  | DOUBLE
  | INT64 "64 word"
  | OBJECT "(string \<times> dynamic) list"
  | STRING string

text \<open>Modelled from the spec: \<open>dynamic::isObject()\<close> and \<open>dynamic::isInt()\<close>.\<close>

fun isObject :: "dynamic \<Rightarrow> bool" where
  "isObject (OBJECT kvs) = True"
| "isObject _ = False"

fun isInt :: "dynamic \<Rightarrow> bool" where
  "isInt (INT64 v) = True"
| "isInt _ = False"

text \<open>
  Modelled from the spec: \<open>member_of json k\<close> is the value \<open>json[k]\<close> of an object, and
  \<open>None\<close> when \<open>json.count(k)\<close> is 0.
\<close>

fun member_of :: "dynamic \<Rightarrow> string \<Rightarrow> dynamic option" where
  "member_of (OBJECT kvs) k = map_of kvs k"
| "member_of _ k = None"

text \<open>
  Modelled from the spec: \<open>checkLogic\<close> (mcrouter/lib/fbi/cpp/util.h, which is not part
  of the source given) raises a recoverable error carrying the message when the condition
  is false.
\<close>

definition checkLogic :: "bool \<Rightarrow> string \<Rightarrow> error + unit" where
  "checkLogic cond msg = (if cond then Inr () else Inl (LogicError msg))"

text \<open>
  The constructor \<open>MigrateRoute(factory, json, tp)\<close>. \<open>factory\<close> is
  \<open>RouteHandleFactory::create\<close>, a parameter: it throws, or returns a pointer that may be
  null (\<open>None\<close>). The checks are made in the order of the source; the two asserts come
  after both handles are created.
\<close>

definition MigrateRoute_json ::
  "(dynamic \<Rightarrow> error + ('req, 'reply) RouteHandleIf option) \<Rightarrow> dynamic \<Rightarrow> ('req \<Rightarrow> time_t) \<Rightarrow>
   error + ('req, 'reply) MigrateRoute" where
  "MigrateRoute_json factory json tp =
     (case checkLogic (isObject json) ''MigrateRoute should be object'' of
        Inl e \<Rightarrow> Inl e
      | Inr _ \<Rightarrow>
     (case member_of json ''start_time'' of
        Some (INT64 start_time) \<Rightarrow>
          (case member_of json ''from'' of
             None \<Rightarrow> Inl (LogicError ''MigrateRoute has no 'from' route'')
           | Some from_json \<Rightarrow>
          (case member_of json ''to'' of
             None \<Rightarrow> Inl (LogicError ''MigrateRoute has no 'to' route'')
           | Some to_json \<Rightarrow>
          (case (case member_of json ''interval'' of
                   None \<Rightarrow> Inr 3600
                 | Some (INT64 interval) \<Rightarrow> Inr interval
                 | Some _ \<Rightarrow> Inl (LogicError ''MigrateRoute interval is not integer'')) of
             Inl e \<Rightarrow> Inl e
           | Inr interval_sec \<Rightarrow>
          (case factory from_json of
             Inl e \<Rightarrow> Inl e
           | Inr fh \<Rightarrow>
          (case factory to_json of
             Inl e \<Rightarrow> Inl e
           | Inr th \<Rightarrow>
          (case fh of
             None \<Rightarrow> Inl AssertionFailed
           | Some f \<Rightarrow>
          (case th of
             None \<Rightarrow> Inl AssertionFailed
           | Some t \<Rightarrow>
              Inr \<lparr>from_h = f, to_h = t, startTimeSec = start_time,
                   intervalSec = interval_sec, tp_fn = tp\<rparr>)))))))
      | _ \<Rightarrow> Inl (LogicError ''MigrateRoute has no/invalid start_time'')))"

subsection \<open>Instances used to run the definitions\<close>

text \<open>
  Replies ranked by a number, a larger one being worse; destinations that answer with a
  fixed reply; a time provider that reads the time off the request.
\<close>

definition worse_nat :: "nat \<Rightarrow> nat \<Rightarrow> bool" where
  "worse_nat a b = (b < a)"

fun constant_reply :: "'reply \<Rightarrow> 'req \<Rightarrow> operation \<Rightarrow> 'reply" where
  "constant_reply v req op = v"

definition example_handle :: "nat \<Rightarrow> nat \<Rightarrow> (time_t, nat) RouteHandleIf" where
  "example_handle i v = \<lparr>handle_id = i, handle_route = constant_reply v\<rparr>"

definition request_time :: "time_t \<Rightarrow> time_t" where
  "request_time req = req"

definition example_route :: "nat \<Rightarrow> nat \<Rightarrow> time_t \<Rightarrow> time_t \<Rightarrow> (time_t, nat) MigrateRoute" where
  "example_route vf vt start_time interval =
     \<lparr>from_h = example_handle 1 vf, to_h = example_handle 2 vt,
      startTimeSec = start_time, intervalSec = interval, tp_fn = request_time\<rparr>"

fun example_factory :: "dynamic \<Rightarrow> error + (time_t, nat) RouteHandleIf option" where
  "example_factory (STRING s) = Inr (Some (example_handle (length s) 0))"
| "example_factory _ = Inl (FactoryError ''unknown route'')"

section \<open>Properties\<close>

subsection \<open>Masks, single and dual dispatch\<close>

lemma routeMask_cases:
  "routeMask r req op = kFromMask \<or> routeMask r req op = kToMask
   \<or> routeMask r req op = kFromMask OR kToMask"
  by (cases op) (simp_all add: Let_def)

lemma mask_distinct:
  "kFromMask \<noteq> kToMask" "kFromMask OR kToMask \<noteq> kFromMask" "kFromMask OR kToMask \<noteq> kToMask"
  by (simp_all add: kFromMask_def kToMask_def)

lemma mask_bits:
  "kFromMask AND kFromMask \<noteq> 0" "kToMask AND kFromMask = 0"
  "kFromMask AND kToMask = 0" "kToMask AND kToMask \<noteq> 0"
  "(kFromMask OR kToMask) AND kFromMask \<noteq> 0" "(kFromMask OR kToMask) AND kToMask \<noteq> 0"
  "kFromMask \<noteq> 0" "kToMask \<noteq> 0"
  by (simp_all add: kFromMask_def kToMask_def)

lemma route_from:
  "routeMask r req op = kFromMask \<Longrightarrow>
   route worseThan r req op ord log = (Inr (handle_route (from_h r) req op), log @ [from_h r])"
  by (simp add: route_def dispatch_def)

lemma route_to:
  "routeMask r req op = kToMask \<Longrightarrow>
   route worseThan r req op ord log = (Inr (handle_route (to_h r) req op), log @ [to_h r])"
  by (simp add: route_def dispatch_def mask_distinct[symmetric])

lemma route_both:
  "routeMask r req op = kFromMask OR kToMask \<Longrightarrow>
   route worseThan r req op ord log =
     (Inr (case ord of
             FromFirst \<Rightarrow>
               if worseThan (handle_route (to_h r) req op) (handle_route (from_h r) req op)
               then handle_route (to_h r) req op else handle_route (from_h r) req op
           | ToFirst \<Rightarrow>
               if worseThan (handle_route (from_h r) req op) (handle_route (to_h r) req op)
               then handle_route (from_h r) req op else handle_route (to_h r) req op),
      log @ [from_h r, to_h r])"
  by (cases ord) (simp_all add: route_def dispatch_def forEach_def onReply_def mask_distinct)

lemma couldRouteTo_from:
  "routeMask r req op = kFromMask \<Longrightarrow> couldRouteTo r req op = [from_h r]"
  by (simp add: couldRouteTo_def mask_bits)

lemma couldRouteTo_to:
  "routeMask r req op = kToMask \<Longrightarrow> couldRouteTo r req op = [to_h r]"
  by (simp add: couldRouteTo_def mask_bits)

lemma couldRouteTo_both:
  "routeMask r req op = kFromMask OR kToMask \<Longrightarrow> couldRouteTo r req op = [from_h r, to_h r]"
  by (simp add: couldRouteTo_def mask_bits)

text \<open>Where a sum of times stays in range, the machine sum is the sum of the values.\<close>

lemma sint_sum:
  fixes a b :: time_t
  shows "in_time_t (sint a + sint b) \<Longrightarrow> sint (a + b) = sint a + sint b"
  by (simp add: in_time_t_def sint_word_ariths signed_take_bit_int_eq_self)

lemma sint_sum2:
  fixes a b :: time_t
  assumes "in_time_t (sint a + 2 * sint b)"
  shows "sint (a + 2 * b) = sint a + 2 * sint b"
proof -
  have "sint (a + 2 * b) = signed_take_bit 63 (sint a + signed_take_bit 63 (2 * sint b))"
    by (simp add: sint_word_ariths)
  also have "\<dots> = signed_take_bit 63
                      (signed_take_bit 63 (sint a) + signed_take_bit 63 (2 * sint b))"
    by (metis signed_take_bit_add signed_take_bit_signed_take_bit min.idem)
  also have "\<dots> = signed_take_bit 63 (sint a + 2 * sint b)"
    by (rule signed_take_bit_add)
  also have "\<dots> = sint a + 2 * sint b"
    using assms by (simp add: in_time_t_def signed_take_bit_int_eq_self)
  finally show ?thesis .
qed

lemma example_mask_both:
  "routeMask (example_route vf vt 1000 100) 1050 DeleteLike = kFromMask OR kToMask"
  by (simp add: example_route_def request_time_def)

lemma example_mask_before:
  "routeMask (example_route vf vt 1000 100) 900 DeleteLike = kFromMask"
  by (simp add: example_route_def request_time_def)

lemma example_mask_after:
  "routeMask (example_route vf vt 1000 100) 1300 DeleteLike = kToMask"
  by (simp add: example_route_def request_time_def)

subsection \<open>The destination set is never empty\<close>

text \<open>
  C10: for every request, operation class, time and schedule (zero and negative intervals
  included), \<open>routeMask\<close> yields \<open>kFromMask\<close>, \<open>kToMask\<close> or both bits; \<open>couldRouteTo\<close>
  returns one or two handles; and \<open>route\<close> calls at least one destination.
\<close>

theorem routeMask_nonempty:
  "routeMask r req op \<in> {kFromMask, kToMask, kFromMask OR kToMask}
   \<and> length (couldRouteTo r req op) \<in> {1, 2}
   \<and> (\<exists>calls. snd (route worseThan r req op ord log) = log @ calls \<and> calls \<noteq> [])"
  using routeMask_cases [of r req op]
  by (auto simp: route_from route_to route_both
        couldRouteTo_from couldRouteTo_to couldRouteTo_both)

theorem routeMask_nonempty_witness:
  "routeMask (example_route 3 5 1000 (- 100)) 950 OtherThanDeleteLike = kToMask
   \<and> couldRouteTo (example_route 3 5 1000 (- 100)) 950 OtherThanDeleteLike = [example_handle 2 5]
   \<and> routeMask (example_route 3 5 1000 0) 1000 DeleteLike = kToMask
   \<and> couldRouteTo (example_route 3 5 1000 0) 1000 DeleteLike = [example_handle 2 5]"
proof -
  have a: "routeMask (example_route 3 5 1000 (- 100)) 950 OtherThanDeleteLike = kToMask"
    and b: "routeMask (example_route 3 5 1000 0) 1000 DeleteLike = kToMask"
    by (simp_all add: example_route_def request_time_def)
  have c: "couldRouteTo (example_route 3 5 1000 (- 100)) 950 OtherThanDeleteLike
             = [example_handle 2 5]"
    by (simp add: couldRouteTo_to [OF a]) (simp add: example_route_def)
  have d: "couldRouteTo (example_route 3 5 1000 0) 1000 DeleteLike = [example_handle 2 5]"
    by (simp add: couldRouteTo_to [OF b]) (simp add: example_route_def)
  show ?thesis
    using routeMask_nonempty
            [of "example_route 3 5 1000 0" 1000 DeleteLike worse_nat FromFirst "[]"] a b c d
    by blast
qed

subsection \<open>The schedule\<close>

text \<open>
  C4: for an operation that is not delete-like, and for every schedule, the decision is
  FROM when \<open>now < startTime + interval\<close> and TO when \<open>now \<ge> startTime + interval\<close>: the
  threshold itself belongs to TO, and BOTH never occurs. The sum is the \<open>time_t\<close> sum the
  code computes (first two parts); wherever the sum of the two values is in the range of
  \<open>time_t\<close>, it is their sum as integers (third part).
\<close>

theorem routeMask_other_threshold:
  "(tp_fn r req <s startTimeSec r + intervalSec r \<longrightarrow>
      routeMask r req OtherThanDeleteLike = kFromMask)
   \<and> (startTimeSec r + intervalSec r \<le>s tp_fn r req \<longrightarrow>
      routeMask r req OtherThanDeleteLike = kToMask)
   \<and> (in_time_t (sint (startTimeSec r) + sint (intervalSec r)) \<longrightarrow>
        (sint (tp_fn r req) < sint (startTimeSec r) + sint (intervalSec r) \<longrightarrow>
           routeMask r req OtherThanDeleteLike = kFromMask)
      \<and> (sint (startTimeSec r) + sint (intervalSec r) \<le> sint (tp_fn r req) \<longrightarrow>
           routeMask r req OtherThanDeleteLike = kToMask))"
  by (auto simp: word_sless_alt word_sle_eq sint_sum)

theorem routeMask_other_threshold_witness:
  "(1099 :: time_t) <s 1000 + 100
   \<and> routeMask (example_route 1 2 1000 100) 1099 OtherThanDeleteLike = kFromMask
   \<and> (1000 + 100 :: time_t) \<le>s 1100
   \<and> routeMask (example_route 1 2 1000 100) 1100 OtherThanDeleteLike = kToMask
   \<and> in_time_t (sint (1000 :: time_t) + sint (100 :: time_t))"
  using routeMask_other_threshold [of "example_route 1 2 1000 100" 1099]
    routeMask_other_threshold [of "example_route 1 2 1000 100" 1100]
  by (simp add: example_route_def request_time_def in_time_t_def)

text \<open>
  C3, as the code has it: for a delete-like operation and every schedule, the decision is
  FROM when \<open>now < startTime\<close>, BOTH when \<open>startTime \<le> now < startTime + 2 * interval\<close>, and TO
  when \<open>now \<ge> startTime + 2 * interval\<close> and also \<open>now \<ge> startTime\<close>. The test against
  \<open>startTime\<close> comes first, so with a negative interval a time below \<open>startTime\<close> is FROM
  even when it is at or above \<open>startTime + 2 * interval\<close>. Sums as in C4.
\<close>

theorem routeMask_delete_thresholds:
  "(tp_fn r req <s startTimeSec r \<longrightarrow> routeMask r req DeleteLike = kFromMask)
   \<and> (startTimeSec r \<le>s tp_fn r req \<and> tp_fn r req <s startTimeSec r + 2 * intervalSec r \<longrightarrow>
        routeMask r req DeleteLike = kFromMask OR kToMask)
   \<and> (startTimeSec r \<le>s tp_fn r req \<and> startTimeSec r + 2 * intervalSec r \<le>s tp_fn r req \<longrightarrow>
        routeMask r req DeleteLike = kToMask)
   \<and> (in_time_t (sint (startTimeSec r) + 2 * sint (intervalSec r)) \<longrightarrow>
        (sint (startTimeSec r) \<le> sint (tp_fn r req) \<and>
         sint (tp_fn r req) < sint (startTimeSec r) + 2 * sint (intervalSec r) \<longrightarrow>
           routeMask r req DeleteLike = kFromMask OR kToMask)
      \<and> (sint (startTimeSec r) \<le> sint (tp_fn r req) \<and>
         sint (startTimeSec r) + 2 * sint (intervalSec r) \<le> sint (tp_fn r req) \<longrightarrow>
           routeMask r req DeleteLike = kToMask))"
  by (auto simp: word_sless_alt word_sle_eq sint_sum2)

theorem routeMask_delete_thresholds_witness:
  "(999 :: time_t) <s 1000
   \<and> routeMask (example_route 1 2 1000 100) 999 DeleteLike = kFromMask
   \<and> (1000 :: time_t) \<le>s 1000 \<and> (1000 :: time_t) <s 1000 + 2 * 100
   \<and> routeMask (example_route 1 2 1000 100) 1000 DeleteLike = kFromMask OR kToMask
   \<and> (1000 :: time_t) \<le>s 1200 \<and> (1000 + 2 * 100 :: time_t) \<le>s 1200
   \<and> routeMask (example_route 1 2 1000 100) 1200 DeleteLike = kToMask
   \<and> in_time_t (sint (1000 :: time_t) + 2 * sint (100 :: time_t))"
  using routeMask_delete_thresholds [of "example_route 1 2 1000 100" 999]
    routeMask_delete_thresholds [of "example_route 1 2 1000 100" 1000]
    routeMask_delete_thresholds [of "example_route 1 2 1000 100" 1200]
  by (simp add: example_route_def request_time_def in_time_t_def)

text \<open>
  C3 as stated fails: with \<open>startTime = 1000\<close>, \<open>interval = -100\<close> and \<open>now = 900\<close>, the time
  is at or above \<open>startTime + 2 * interval = 800\<close>, where the claim says TO, and the code
  decides FROM.
\<close>

theorem routeMask_delete_thresholds_counterexample:
  "sint (1000 + 2 * (- 100) :: time_t) = 800
   \<and> (1000 + 2 * (- 100) :: time_t) \<le>s 900
   \<and> routeMask (example_route 1 2 1000 (- 100)) 900 DeleteLike = kFromMask
   \<and> kFromMask \<noteq> kToMask"
  by (simp add: example_route_def request_time_def kToMask_def kFromMask_def)

text \<open>
  C8, as the code has it: whenever \<open>now < startTime\<close> the decision is FROM for a delete-like
  operation under every schedule, and for any other operation under every schedule whose
  interval is not negative and whose \<open>startTime + interval\<close> is in the range of \<open>time_t\<close>.
\<close>

theorem routeMask_before_start:
  assumes "tp_fn r req <s startTimeSec r"
    and "op = DeleteLike
         \<or> (0 \<le>s intervalSec r \<and> in_time_t (sint (startTimeSec r) + sint (intervalSec r)))"
  shows "routeMask r req op = kFromMask"
  using assms by (cases op) (auto simp: word_sless_alt word_sle_eq sint_sum)

theorem routeMask_before_start_witness:
  "(900 :: time_t) <s 1000
   \<and> (0 :: time_t) \<le>s 100 \<and> in_time_t (sint (1000 :: time_t) + sint (100 :: time_t))
   \<and> routeMask (example_route 1 2 1000 100) 900 OtherThanDeleteLike = kFromMask
   \<and> routeMask (example_route 1 2 1000 (- 100)) 900 DeleteLike = kFromMask"
proof -
  have a: "tp_fn (example_route 1 2 1000 i) 900 <s startTimeSec (example_route 1 2 1000 i)" for i
    by (simp add: example_route_def request_time_def)
  have b: "0 \<le>s intervalSec (example_route 1 2 1000 100)
           \<and> in_time_t (sint (startTimeSec (example_route 1 2 1000 100))
                        + sint (intervalSec (example_route 1 2 1000 100)))"
    by (simp add: example_route_def in_time_t_def word_sle_eq)
  have "routeMask (example_route 1 2 1000 100) 900 OtherThanDeleteLike = kFromMask"
    using routeMask_before_start [OF a] b by blast
  moreover have "routeMask (example_route 1 2 1000 (- 100)) 900 DeleteLike = kFromMask"
    using routeMask_before_start [OF a] by blast
  ultimately show ?thesis
    by (simp add: in_time_t_def word_sle_eq)
qed

text \<open>
  C8 as stated fails for an operation that is not delete-like under a negative interval:
  with \<open>startTime = 1000\<close>, \<open>interval = -100\<close> and \<open>now = 950\<close>, the time is below \<open>startTime\<close>
  and the code decides TO.
\<close>

theorem routeMask_before_start_counterexample:
  "(950 :: time_t) <s 1000
   \<and> routeMask (example_route 1 2 1000 (- 100)) 950 OtherThanDeleteLike = kToMask
   \<and> kToMask \<noteq> kFromMask"
  by (simp add: example_route_def request_time_def kToMask_def kFromMask_def)

subsection \<open>What route dispatches\<close>

text \<open>
  C7: for every operation handled by \<open>route\<close>, the calls it makes are exactly one call of
  \<open>from\<close> when the mask selects it and none otherwise, and one call of \<open>to\<close> when the mask
  selects it and none otherwise, on the single path as on the dual one. The count is by
  destination slot: a handle held in both slots is called once for each.
\<close>

theorem route_calls_each_selected_once:
  "\<exists>calls. snd (route worseThan r req op ord log) = log @ calls \<and>
     mset calls =
       (if routeMask r req op AND kFromMask \<noteq> 0 then {#from_h r#} else {#})
       + (if routeMask r req op AND kToMask \<noteq> 0 then {#to_h r#} else {#})"
  using routeMask_cases [of r req op]
  by (auto simp: route_from route_to route_both mask_bits)

theorem route_calls_each_selected_once_witness:
  "snd (route worse_nat (example_route 3 5 1000 100) 900 DeleteLike FromFirst [])
     = [example_handle 1 3]
   \<and> snd (route worse_nat (example_route 3 5 1000 100) 1050 DeleteLike FromFirst [])
     = [example_handle 1 3, example_handle 2 5]
   \<and> snd (route worse_nat (example_route 3 5 1000 100) 1300 DeleteLike FromFirst [])
     = [example_handle 2 5]"
proof -
  have a: "snd (route worse_nat (example_route 3 5 1000 100) 900 DeleteLike FromFirst [])
             = [example_handle 1 3]"
    by (simp add: route_from [OF example_mask_before]) (simp add: example_route_def)
  have b: "snd (route worse_nat (example_route 3 5 1000 100) 1050 DeleteLike FromFirst [])
             = [example_handle 1 3, example_handle 2 5]"
    by (simp add: route_both [OF example_mask_both]) (simp add: example_route_def)
  have c: "snd (route worse_nat (example_route 3 5 1000 100) 1300 DeleteLike FromFirst [])
             = [example_handle 2 5]"
    by (simp add: route_to [OF example_mask_after]) (simp add: example_route_def)
  show ?thesis
    using route_calls_each_selected_once
            [of worse_nat "example_route 3 5 1000 100" 1050 DeleteLike FromFirst "[]"] a b c
    by blast
qed

text \<open>
  C5: for every request, operation and time, the handles \<open>couldRouteTo\<close> returns are
  exactly the destinations \<open>route\<close> calls for the same operation at that time; when both
  apply, they are returned as \<open>[from, to]\<close>. \<open>couldRouteTo\<close> is a function of the route, the
  request and the operation alone: it has no call log to add to.
\<close>

theorem couldRouteTo_matches_route:
  "(\<exists>calls. snd (route worseThan r req op ord log) = log @ calls
       \<and> mset calls = mset (couldRouteTo r req op))
   \<and> (length (couldRouteTo r req op) = 2 \<longrightarrow> couldRouteTo r req op = [from_h r, to_h r])"
  using routeMask_cases [of r req op]
  by (auto simp: route_from route_to route_both
        couldRouteTo_from couldRouteTo_to couldRouteTo_both)

theorem couldRouteTo_matches_route_witness:
  "length (couldRouteTo (example_route 3 5 1000 100) 1050 DeleteLike) = 2
   \<and> couldRouteTo (example_route 3 5 1000 100) 1050 DeleteLike
       = [example_handle 1 3, example_handle 2 5]
   \<and> snd (route worse_nat (example_route 3 5 1000 100) 1050 DeleteLike ToFirst [])
       = [example_handle 1 3, example_handle 2 5]"
proof -
  have l: "length (couldRouteTo (example_route 3 5 1000 100) 1050 DeleteLike) = 2"
    by (simp add: couldRouteTo_both [OF example_mask_both])
  have c: "snd (route worse_nat (example_route 3 5 1000 100) 1050 DeleteLike ToFirst [])
             = [example_handle 1 3, example_handle 2 5]"
    by (simp add: route_both [OF example_mask_both]) (simp add: example_route_def)
  show ?thesis
    using couldRouteTo_matches_route
            [of worse_nat "example_route 3 5 1000 100" 1050 DeleteLike ToFirst "[]"] l c
    by (simp add: example_route_def)
qed

subsection \<open>Reconciling the two replies\<close>

text \<open>
  C1, as the code has it: on the dual-dispatch path, with \<open>a\<close> the reply that completes
  first and \<open>b\<close> the one that completes second, \<open>route\<close> returns whichever of the two is
  worse under \<open>worseThan\<close>: \<open>b\<close> when \<open>b\<close> is worse than \<open>a\<close>, \<open>a\<close> when \<open>a\<close> is strictly worse than
  \<open>b\<close>; and when neither is strictly worse than the other it keeps \<open>a\<close>, the first one.
\<close>

theorem route_dual_returns_worse:
  assumes "routeMask r req op = kFromMask OR kToMask"
  shows "let rf = handle_route (from_h r) req op;
             rt = handle_route (to_h r) req op;
             a = (case ord of FromFirst \<Rightarrow> rf | ToFirst \<Rightarrow> rt);
             b = (case ord of FromFirst \<Rightarrow> rt | ToFirst \<Rightarrow> rf)
         in \<exists>w. fst (route worseThan r req op ord log) = Inr w
              \<and> (worseThan b a \<longrightarrow> w = b)
              \<and> (worseThan a b \<and> \<not> worseThan b a \<longrightarrow> w = a)
              \<and> (\<not> worseThan a b \<and> \<not> worseThan b a \<longrightarrow> w = a)"
  using assms by (cases ord) (simp_all add: route_both Let_def)

theorem route_dual_returns_worse_witness:
  "routeMask (example_route 3 5 1000 100) 1050 DeleteLike = kFromMask OR kToMask
   \<and> worse_nat 5 3
   \<and> fst (route worse_nat (example_route 3 5 1000 100) 1050 DeleteLike ToFirst []) = Inr 5
   \<and> \<not> worse_nat 7 7
   \<and> fst (route worse_nat (example_route 7 7 1000 100) 1050 DeleteLike ToFirst []) = Inr 7"
proof -
  have f: "handle_route (from_h (example_route vf vt 1000 100)) 1050 DeleteLike = vf"
    and g: "handle_route (to_h (example_route vf vt 1000 100)) 1050 DeleteLike = vt" for vf vt
    by (simp_all add: example_route_def example_handle_def)
  have w: "worse_nat 5 3" "\<not> worse_nat 7 7"
    by (simp_all add: worse_nat_def)
  have r1: "fst (route worse_nat (example_route 3 5 1000 100) 1050 DeleteLike ToFirst []) = Inr 5"
    using route_dual_returns_worse [OF example_mask_both, of 3 5 ToFirst worse_nat "[]"]
    by (auto simp: f g Let_def worse_nat_def)
  have r2: "fst (route worse_nat (example_route 7 7 1000 100) 1050 DeleteLike ToFirst []) = Inr 7"
    using route_dual_returns_worse [OF example_mask_both, of 7 7 ToFirst worse_nat "[]"]
    by (auto simp: f g Let_def worse_nat_def)
  show ?thesis
    using example_mask_both [of 3 5] w r1 r2 by blast
qed

text \<open>
  C1 as stated fails: \<open>from\<close> replies 3 and \<open>to\<close> replies 5, a larger reply being worse, so 3
  is the reply that is not worse; on the dual-dispatch path \<open>route\<close> returns 5.
\<close>

theorem route_dual_returns_worse_counterexample:
  "routeMask (example_route 3 5 1000 100) 1050 DeleteLike = kFromMask OR kToMask
   \<and> fst (route worse_nat (example_route 3 5 1000 100) 1050 DeleteLike FromFirst []) = Inr 5
   \<and> worse_nat 5 3 \<and> \<not> worse_nat 3 5"
proof -
  have r: "fst (route worse_nat (example_route 3 5 1000 100) 1050 DeleteLike FromFirst []) = Inr 5"
    by (simp add: route_both [OF example_mask_both])
       (simp add: example_route_def example_handle_def worse_nat_def)
  have w: "worse_nat 5 3 \<and> \<not> worse_nat 3 5"
    by (simp add: worse_nat_def)
  show ?thesis
    using example_mask_both [of 3 5] r w by blast
qed

text \<open>
  C2: with \<open>startTime = 1000\<close> and \<open>interval = 100\<close>, a delete-like operation routed at
  \<open>now = 1050\<close> goes to both destinations, each is called once, and the reply returned is
  the worse of the two: a reply that is worse than the other one, or either of them when
  neither is worse than the other.
\<close>

theorem route_delete_at_1050:
  assumes "startTimeSec r = 1000" and "intervalSec r = 100" and "tp_fn r req = 1050"
  shows "routeMask r req DeleteLike = kFromMask OR kToMask
    \<and> (let rf = handle_route (from_h r) req DeleteLike;
            rt = handle_route (to_h r) req DeleteLike
        in \<exists>w calls. route worseThan r req DeleteLike ord log = (Inr w, log @ calls)
             \<and> mset calls = {#from_h r, to_h r#}
             \<and> (w = rf \<and> worseThan rf rt \<or> w = rt \<and> worseThan rt rf
                \<or> (w = rf \<or> w = rt) \<and> \<not> worseThan rf rt \<and> \<not> worseThan rt rf))"
proof -
  have m: "routeMask r req DeleteLike = kFromMask OR kToMask"
    using assms by simp
  show ?thesis
    using m by (cases ord) (auto simp: route_both Let_def)
qed

theorem route_delete_at_1050_witness:
  "startTimeSec (example_route 5 3 1000 100) = 1000
   \<and> intervalSec (example_route 5 3 1000 100) = 100
   \<and> tp_fn (example_route 5 3 1000 100) 1050 = 1050
   \<and> routeMask (example_route 5 3 1000 100) 1050 DeleteLike = kFromMask OR kToMask
   \<and> route worse_nat (example_route 5 3 1000 100) 1050 DeleteLike ToFirst []
       = (Inr 5, [example_handle 1 5, example_handle 2 3])
   \<and> worse_nat 5 3"
proof -
  have a: "startTimeSec (example_route 5 3 1000 100) = 1000"
    and b: "intervalSec (example_route 5 3 1000 100) = 100"
    and c: "tp_fn (example_route 5 3 1000 100) 1050 = 1050"
    by (simp_all add: example_route_def request_time_def)
  have v: "route worse_nat (example_route 5 3 1000 100) 1050 DeleteLike ToFirst []
             = (Inr 5, [example_handle 1 5, example_handle 2 3])"
    by (simp add: route_both [OF example_mask_both])
       (simp add: example_route_def example_handle_def worse_nat_def)
  have w: "worse_nat 5 3"
    by (simp add: worse_nat_def)
  show ?thesis
    using route_delete_at_1050 [OF a b c, of worse_nat ToFirst "[]"] a b c v w
    by simp
qed

text \<open>
  C9: for replies \<open>a\<close> and \<open>b\<close> that are not tied, one of them being worse than the other
  and not the other way round, feeding them to the callback in either order leaves the
  same reply, so \<open>route\<close> returns the same reply (and makes the same calls) whichever of
  the two sub-tasks completes first.
\<close>

theorem route_completion_order_irrelevant:
  assumes "worseThan a b \<or> worseThan b a"
    and "\<not> (worseThan a b \<and> worseThan b a)"
    and "handle_route (from_h r) req op = a" and "handle_route (to_h r) req op = b"
  shows "onReply worseThan j b (onReply worseThan i a None)
           = onReply worseThan i a (onReply worseThan j b None)
       \<and> route worseThan r req op FromFirst log = route worseThan r req op ToFirst log"
  using assms routeMask_cases [of r req op]
  by (auto simp: onReply_def route_from route_to route_both)

theorem route_completion_order_irrelevant_witness:
  "worse_nat 5 3 \<and> \<not> worse_nat 3 5
   \<and> onReply worse_nat 1 5 (onReply worse_nat 0 3 None) = Some 5
   \<and> onReply worse_nat 0 3 (onReply worse_nat 1 5 None) = Some 5
   \<and> route worse_nat (example_route 3 5 1000 100) 1050 DeleteLike FromFirst []
       = route worse_nat (example_route 3 5 1000 100) 1050 DeleteLike ToFirst []
   \<and> fst (route worse_nat (example_route 3 5 1000 100) 1050 DeleteLike ToFirst []) = Inr 5"
proof -
  have t: "worse_nat 3 5 \<or> worse_nat 5 3" and n: "\<not> (worse_nat 3 5 \<and> worse_nat 5 3)"
    by (simp_all add: worse_nat_def)
  have f: "handle_route (from_h (example_route 3 5 1000 100)) 1050 DeleteLike = 3"
    and g: "handle_route (to_h (example_route 3 5 1000 100)) 1050 DeleteLike = 5"
    by (simp_all add: example_route_def example_handle_def)
  have v: "fst (route worse_nat (example_route 3 5 1000 100) 1050 DeleteLike ToFirst []) = Inr 5"
    by (simp add: route_both [OF example_mask_both] f g) (simp add: worse_nat_def)
  have o: "onReply worse_nat 1 5 (onReply worse_nat 0 3 None) = Some 5"
    by (simp add: onReply_def worse_nat_def)
  have w: "worse_nat 5 3 \<and> \<not> worse_nat 3 5"
    by (simp add: worse_nat_def)
  show ?thesis
    using route_completion_order_irrelevant [OF t n f g, of 1 0 "[]"] v o w
    by simp
qed

subsection \<open>Construction from a configuration\<close>

text \<open>
  C6: the constructor fails with a \<open>LogicError\<close> carrying one of its five messages, and
  not with a failed assertion, whenever the configuration is not an object, \<open>start_time\<close>
  is absent or not an integer, \<open>interval\<close> is present but not an integer, or \<open>from\<close> or
  \<open>to\<close> is missing, whatever the factory does; and a route built from a configuration
  without \<open>interval\<close> has the interval 3600.
\<close>

theorem MigrateRoute_json_config_errors:
  "(\<not> isObject json
      \<or> member_of json ''start_time'' = None
      \<or> (\<exists>v. member_of json ''start_time'' = Some v \<and> \<not> isInt v)
      \<or> (\<exists>v. member_of json ''interval'' = Some v \<and> \<not> isInt v)
      \<or> member_of json ''from'' = None
      \<or> member_of json ''to'' = None
    \<longrightarrow> (\<exists>msg. MigrateRoute_json factory json tp = Inl (LogicError msg)
           \<and> msg \<in> set [''MigrateRoute should be object'',
                          ''MigrateRoute has no/invalid start_time'',
                          ''MigrateRoute has no 'from' route'',
                          ''MigrateRoute has no 'to' route'',
                          ''MigrateRoute interval is not integer'']))
   \<and> (member_of json ''interval'' = None \<longrightarrow>
        (\<forall>r. MigrateRoute_json factory json tp = Inr r \<longrightarrow> intervalSec r = 3600))"
  by (auto simp: MigrateRoute_json_def checkLogic_def
           split: option.splits dynamic.splits sum.splits)

theorem MigrateRoute_json_config_errors_witness:
  "member_of (OBJECT [(''start_time'', STRING ''soon''), (''from'', STRING ''a''),
                      (''to'', STRING ''bb'')]) ''start_time'' = Some (STRING ''soon'')
   \<and> \<not> isInt (STRING ''soon'')
   \<and> MigrateRoute_json example_factory
        (OBJECT [(''start_time'', STRING ''soon''), (''from'', STRING ''a''),
                 (''to'', STRING ''bb'')]) request_time
       = Inl (LogicError ''MigrateRoute has no/invalid start_time'')
   \<and> member_of (OBJECT [(''start_time'', INT64 1000), (''from'', STRING ''a''),
                        (''to'', STRING ''bb'')]) ''interval'' = None
   \<and> MigrateRoute_json example_factory
        (OBJECT [(''start_time'', INT64 1000), (''from'', STRING ''a''),
                 (''to'', STRING ''bb'')]) request_time
       = Inr \<lparr>from_h = example_handle 1 0, to_h = example_handle 2 0,
               startTimeSec = 1000, intervalSec = 3600, tp_fn = request_time\<rparr>"
  using MigrateRoute_json_config_errors
          [of "OBJECT [(''start_time'', STRING ''soon''), (''from'', STRING ''a''),
                       (''to'', STRING ''bb'')]" example_factory request_time]
    MigrateRoute_json_config_errors
          [of "OBJECT [(''start_time'', INT64 1000), (''from'', STRING ''a''),
                       (''to'', STRING ''bb'')]" example_factory request_time]
  by (simp add: MigrateRoute_json_def checkLogic_def numeral_2_eq_2)

end
